theory Spec2Isabelle
  imports Complex_Main "HOL-Library.Multiset"
begin

section \<open>Python values\<close>

text \<open>
  A Python \<open>str\<close> is a sequence of Unicode code points, and \<open>len\<close> counts code points.
  A string is therefore modelled as the list of its code points; \<open>u\<close> embeds an ASCII
  literal. The Thai literals of the source are written out as code points.
\<close>

type_synonym pystr = "nat list"

definition u :: "string \<Rightarrow> pystr" where
  "u s = map of_char s"

text \<open>
  A Python \<open>float\<close>: a finite float is the real number it denotes; the two infinities
  and NaN are values of their own. \<open>json.loads\<close> returns them for the tokens \<open>Infinity\<close>,
  \<open>-Infinity\<close> and \<open>NaN\<close>, which are not JSON, and an infinity for a number such as
  \<open>1e999\<close>.
\<close>

datatype pyfloat = Fin real | PosInf | NegInf | NaN

text \<open>The comparisons \<open><\<close> and \<open><=\<close> of floats: every comparison with NaN is false.\<close>

fun py_lt :: "pyfloat \<Rightarrow> pyfloat \<Rightarrow> bool" where
  "py_lt NaN b = False"
| "py_lt a NaN = False"
| "py_lt (Fin a) (Fin b) = (a < b)"
| "py_lt (Fin a) PosInf = True"
| "py_lt (Fin a) NegInf = False"
| "py_lt PosInf b = False"
| "py_lt NegInf NegInf = False"
| "py_lt NegInf b = True"

fun py_le :: "pyfloat \<Rightarrow> pyfloat \<Rightarrow> bool" where
  "py_le NaN b = False"
| "py_le a NaN = False"
| "py_le a b = (\<not> py_lt b a)"

text \<open>\<open>int.bit_length\<close>: the number of binary digits of a natural number.\<close>

fun bit_length :: "nat \<Rightarrow> nat" where
  "bit_length n = (if n = 0 then 0 else Suc (bit_length (n div 2)))"

declare bit_length.simps [simp del]

text \<open>
  The conversion of an \<open>int\<close> to a \<open>float\<close>, as \<open>float(n)\<close> and a pydantic \<open>float\<close> field
  do it: an integer of at most 53 binary digits is kept exactly; a longer one is rounded
  to 53 significant digits, a tie going to the even neighbour; and the conversion
  raises (\<open>None\<close>) when the rounded magnitude reaches \<open>2 ^ 1024\<close>.
\<close>

definition py_float_of_int :: "int \<Rightarrow> pyfloat option" where
  "py_float_of_int n =
    (let m = nat \<bar>n\<bar>; k = bit_length m in
     if k \<le> 53 then Some (Fin (of_int n))
     else
       (let s = k - 53;
            q = m div 2 ^ s;
            r = m mod 2 ^ s;
            h = 2 ^ (s - 1);
            q' = (if h < r \<or> (r = h \<and> odd q) then q + 1 else q);
            v = q' * 2 ^ s
        in if 2 ^ 1024 \<le> v then None
           else Some (Fin (if n < 0 then - of_nat v else of_nat v))))"

text \<open>
  The value \<open>json.loads\<close> returns: \<open>None\<close>, a \<open>bool\<close>, an \<open>int\<close>, a \<open>float\<close>, a \<open>str\<close>,
  a \<open>list\<close> or a \<open>dict\<close>. A \<open>dict\<close> is an association list read with \<open>map_of\<close>.
\<close>

datatype json =
    JNull
  | JBool bool
  | JInt int
  | JFloat pyfloat
  | JStr pystr
  | JArr "json list"
  | JObj "(pystr \<times> json) list"

text \<open>The exceptions the modelled code can raise; every one is caught by \<open>except Exception\<close>.\<close>

datatype py_exc = KeyError | TypeError | ValidationError | JSONDecodeError | APIError

text \<open>\<open>v[k]\<close> for a string key \<open>k\<close>: only a \<open>dict\<close> accepts it, and a missing key raises.\<close>

fun getitem :: "json \<Rightarrow> pystr \<Rightarrow> py_exc + json" where
  "getitem (JObj kvs) k = (case map_of kvs k of None \<Rightarrow> Inl KeyError | Some x \<Rightarrow> Inr x)"
| "getitem _ k = Inl TypeError"

text \<open>
  \<open>for rec in v\<close>: a list yields its elements, a dict its keys, a string its
  one-character substrings; any other JSON value is not iterable.
\<close>

fun py_iter :: "json \<Rightarrow> py_exc + json list" where
  "py_iter (JArr xs) = Inr xs"
| "py_iter (JObj kvs) = Inr (map (\<lambda>kv. JStr (fst kv)) kvs)"
| "py_iter (JStr s) = Inr (map (\<lambda>c. JStr [c]) s)"
| "py_iter _ = Inl TypeError"

section \<open>The models and the catalog\<close>

text \<open>An entry of \<open>PRODUCT_CATALOG\<close>: a dict with the keys id, name, price, description, image.\<close>

record product =
  p_id :: pystr
  p_name :: pystr
  p_price :: int
  p_description :: pystr
  p_image :: pystr

text \<open>\<open>class ProductDisplay(BaseModel)\<close>; \<open>price\<close> and \<open>confidence\<close> are \<open>float\<close> fields.\<close>

record product_display =
  category :: pystr
  product_d :: pystr
  price :: pyfloat
  reason :: pystr
  confidence :: pyfloat
  image_d :: pystr

definition sports_products :: "product list" where
  "sports_products =
    [\<lparr>p_id = u ''S001'', p_name = u ''Nike Air Zoom Pegasus'', p_price = 4500,
      p_description =
        [3619, 3629, 3591, 3648, 3607, 3657, 3634, 3623, 3636, 3656, 3591, 3619, 3632,
         3604, 3633, 3610, 3614, 3619, 3637, 3648, 3617, 3637, 3618, 3617],
      p_image = u ''https://picsum.photos/300/200?random=1''\<rparr>,
     \<lparr>p_id = u ''S002'', p_name = u ''Fitbit Charge 5'', p_price = 6900,
      p_description =
        [3626, 3617, 3634, 3619, 3660, 3607, 3623, 3629, 3607, 3594, 3660, 3626, 3635,
         3627, 3619, 3633, 3610, 3629, 3629, 3585, 3585, 3635, 3621, 3633, 3591,
         3585, 3634, 3618],
      p_image = u ''https://picsum.photos/300/200?random=2''\<rparr>,
     \<lparr>p_id = u ''S003'', p_name = u ''Yoga Mat Premium'', p_price = 1200,
      p_description =
        [3648, 3626, 3639, 3656, 3629, 3650, 3618, 3588, 3632, 3588, 3640, 3603, 3616,
         3634, 3614, 3626, 3641, 3591],
      p_image = u ''https://picsum.photos/300/200?random=3''\<rparr>]"

definition photography_products :: "product list" where
  "photography_products =
    [\<lparr>p_id = u ''P001'', p_name = u ''Sony A7 III'', p_price = 59900,
      p_description =
        [3585, 3621, 3657, 3629, 3591, 32, 77, 105, 114, 114, 111, 114, 108, 101, 115,
         115, 32, 3619, 3632, 3604, 3633, 3610, 3617, 3639, 3629, 3629, 3634,
         3594, 3637, 3614],
      p_image = u ''https://picsum.photos/300/200?random=4''\<rparr>,
     \<lparr>p_id = u ''P002'', p_name = u ''DJI Mini 3 Pro'', p_price = 29900,
      p_description =
        [3650, 3604, 3619, 3609, 3606, 3656, 3634, 3618, 3616, 3634, 3614, 3586, 3609,
         3634, 3604, 3614, 3585, 3614, 3634],
      p_image = u ''https://picsum.photos/300/200?random=5''\<rparr>,
     \<lparr>p_id = u ''P003'', p_name = u ''Peak Design Backpack'', p_price = 8900,
      p_description =
        [3585, 3619, 3632, 3648, 3611, 3659, 3634, 3585, 3621, 3657, 3629, 3591, 3619,
         3632, 3604, 3633, 3610, 3614, 3619, 3637, 3648, 3617, 3637, 3618, 3617],
      p_image = u ''https://picsum.photos/300/200?random=6''\<rparr>]"

definition cooking_products :: "product list" where
  "cooking_products =
    [\<lparr>p_id = u ''C001'', p_name = u ''Instant Pot Duo'', p_price = 3900,
      p_description =
        [3627, 3617, 3657, 3629, 3607, 3635, 3629, 3634, 3627, 3634, 3619, 3629, 3648,
         3609, 3585, 3611, 3619, 3632, 3626, 3591, 3588, 3660],
      p_image = u ''https://picsum.photos/300/200?random=7''\<rparr>,
     \<lparr>p_id = u ''C002'', p_name = u ''Vitamix Blender'', p_price = 15900,
      p_description =
        [3648, 3588, 3619, 3639, 3656, 3629, 3591, 3611, 3633, 3656, 3609, 3619, 3632,
         3604, 3633, 3610, 3617, 3639, 3629, 3629, 3634, 3594, 3637, 3614],
      p_image = u ''https://picsum.photos/300/200?random=8''\<rparr>,
     \<lparr>p_id = u ''C003'', p_name = u ''Kitchen Scale Digital'', p_price = 890,
      p_description =
        [3648, 3588, 3619, 3639, 3656, 3629, 3591, 3594, 3633, 3656, 3591, 3604, 3636,
         3592, 3636, 3605, 3629, 3621, 3649, 3617, 3656, 3609, 3618, 3635, 3626,
         3641, 3591],
      p_image = u ''https://picsum.photos/300/200?random=9''\<rparr>]"

definition PRODUCT_CATALOG :: "(pystr \<times> product list) list" where
  "PRODUCT_CATALOG =
    [(u ''Sports & Fitness'', sports_products),
     (u ''Photography'', photography_products),
     (u ''Cooking'', cooking_products)]"

section \<open>The environment\<close>

text \<open>
  What the program does not contain: the language-model service and the library functions
  whose results it consumes. An external call either raises or returns.
\<close>

datatype 'a outcome = Raised | Returned 'a

text \<open>\<open>OpenAI(api_key=api_key)\<close>: the client handle, holding the key.\<close>

datatype handle = OpenAI pystr

text \<open>
  \<^item> \<open>test_connection\<close>: the round-trip of \<open>init_openai_client\<close>; it returns the truth value of
    the response object.
  \<^item> \<open>chat_completion\<close>: the request of \<open>get_recommendations_with_products\<close>, a function of the
    handle and the user message (model and system message are constants); it returns
    \<open>response.choices[0].message.content\<close>, and \<open>Raised\<close> also stands for a response without
    such a string.
  \<^item> \<open>json_loads\<close>: \<open>json.loads\<close>, \<open>None\<close> when it raises.
  \<^item> \<open>py_str\<close>: how an f-string renders a value that is not a string.
  \<^item> \<open>lax_float\<close>: the float pydantic's \<open>float\<close> field makes of a value that is neither a
    \<open>float\<close> nor an \<open>int\<close> (a numeric string, for one), \<open>None\<close> when it rejects the value.
  \<^item> \<open>nan_sort\<close>: the order in which \<open>list.sort\<close> leaves a list when one of the keys is NaN.
    The comparisons are then no total order, and Python specifies the result of a sort
    only for a total order.
\<close>

record env =
  test_connection :: "handle \<Rightarrow> bool outcome"
  chat_completion :: "handle \<Rightarrow> pystr \<Rightarrow> pystr outcome"
  json_loads :: "pystr \<Rightarrow> json option"
  py_str :: "json \<Rightarrow> pystr"
  lax_float :: "json \<Rightarrow> pyfloat option"
  nan_sort :: "product_display list \<Rightarrow> product_display list"

section \<open>Credential validation\<close>

definition startswith :: "pystr \<Rightarrow> pystr \<Rightarrow> bool" where
  "startswith s p = (take (length p) s = p)"

definition validate_api_key :: "pystr \<Rightarrow> bool" where
  "validate_api_key api_key =
    (if \<not> startswith api_key (u ''sk-'') then False
     else if length api_key < 20 then False
     else True)"

section \<open>Recommendation Mapper and Client\<close>

text \<open>
  pydantic's validation of a \<open>float\<close> field, which the class declares with no bound: a
  \<open>float\<close> is taken as it is, NaN and the infinities too; an \<open>int\<close> is converted, and
  rejected when the conversion raises; any other value is left to the library's lax
  conversion.
\<close>

fun validate_float :: "env \<Rightarrow> json \<Rightarrow> py_exc + pyfloat" where
  "validate_float E (JFloat x) = Inr x"
| "validate_float E (JInt n) =
    (case py_float_of_int n of None \<Rightarrow> Inl ValidationError | Some x \<Rightarrow> Inr x)"
| "validate_float E v =
    (case lax_float E v of None \<Rightarrow> Inl ValidationError | Some x \<Rightarrow> Inr x)"

text \<open>A replacement field of an f-string: a string is inserted as it is.\<close>

fun format_field :: "env \<Rightarrow> json \<Rightarrow> pystr" where
  "format_field E (JStr s) = s"
| "format_field E v = py_str E v"

text \<open>
  The body of the inner loop (lines 161 to 168): \<open>ProductDisplay(...)\<close> for the
  recommendation \<open>rec\<close>, whose category is the string \<open>cat\<close>, and the product \<open>p\<close>. The
  arguments are evaluated first, then the two \<open>float\<close> fields are validated: \<open>price\<close> from
  the catalog's \<open>int\<close>, \<open>confidence\<close> from \<open>rec["confidence"]\<close>.
\<close>

definition make_display :: "env \<Rightarrow> json \<Rightarrow> pystr \<Rightarrow> product \<Rightarrow> py_exc + product_display" where
  "make_display E rec cat p =
    (case getitem rec (u ''reason'') of
       Inl e \<Rightarrow> Inl e
     | Inr r \<Rightarrow>
        (case getitem rec (u ''confidence'') of
           Inl e \<Rightarrow> Inl e
         | Inr c \<Rightarrow>
            (case validate_float E (JInt (p_price p)) of
               Inl e \<Rightarrow> Inl e
             | Inr pr \<Rightarrow>
                (case validate_float E c of
                   Inl e \<Rightarrow> Inl e
                 | Inr x \<Rightarrow>
                    Inr \<lparr>category = cat,
                         product_d = p_name p,
                         price = pr,
                         reason = format_field E r @ u '' - '' @ p_description p,
                         confidence = x,
                         image_d = p_image p\<rparr>))))"

text \<open>\<open>for p in products\<close>: one display per product, in order; the first exception ends it.\<close>

fun expand_products :: "env \<Rightarrow> json \<Rightarrow> pystr \<Rightarrow> product list \<Rightarrow> py_exc + product_display list" where
  "expand_products E rec cat [] = Inr []"
| "expand_products E rec cat (p # ps) =
    (case make_display E rec cat p of
       Inl e \<Rightarrow> Inl e
     | Inr d \<Rightarrow>
        (case expand_products E rec cat ps of
           Inl e \<Rightarrow> Inl e
         | Inr ds \<Rightarrow> Inr (d # ds)))"

text \<open>
  \<open>rec["category"] in PRODUCT_CATALOG\<close> and the loop over its products. A string is looked
  up; a list or a dict is unhashable and raises; any other value is hashable and is no
  key of the catalog.
\<close>

fun expand_category :: "env \<Rightarrow> json \<Rightarrow> json \<Rightarrow> py_exc + product_display list" where
  "expand_category E rec (JStr cat) =
    (case map_of PRODUCT_CATALOG cat of
       None \<Rightarrow> Inr []
     | Some products \<Rightarrow> expand_products E rec cat products)"
| "expand_category E rec (JArr xs) = Inl TypeError"
| "expand_category E rec (JObj kvs) = Inl TypeError"
| "expand_category E rec c = Inr []"

text \<open>The body of the outer loop (lines 157 to 169): what one \<open>rec\<close> appends.\<close>

definition expand_rec :: "env \<Rightarrow> json \<Rightarrow> py_exc + product_display list" where
  "expand_rec E rec =
    (case getitem rec (u ''category'') of
       Inl e \<Rightarrow> Inl e
     | Inr c \<Rightarrow> expand_category E rec c)"

text \<open>
  \<open>for rec in result["recommendations"]\<close>: the list \<open>all_product_recommendations\<close> after
  the loop, or the first exception.
\<close>

fun expand_loop :: "env \<Rightarrow> json list \<Rightarrow> py_exc + product_display list" where
  "expand_loop E [] = Inr []"
| "expand_loop E (rec # recs) =
    (case expand_rec E rec of
       Inl e \<Rightarrow> Inl e
     | Inr ds \<Rightarrow>
        (case expand_loop E recs of
           Inl e \<Rightarrow> Inl e
         | Inr rest \<Rightarrow> Inr (ds @ rest)))"

text \<open>
  A stable ascending sort by a float key, by insertion: an element goes before the
  first one that is not less than it. Only \<open><\<close> is used, as in Python. On keys that
  \<open><\<close> orders totally a stable sort has one result, this one.
\<close>

fun insort_lt :: "('a \<Rightarrow> pyfloat) \<Rightarrow> 'a \<Rightarrow> 'a list \<Rightarrow> 'a list" where
  "insort_lt key x [] = [x]"
| "insort_lt key x (y # ys) =
    (if py_lt (key y) (key x) then y # insort_lt key x ys else x # y # ys)"

definition stable_sort :: "('a \<Rightarrow> pyfloat) \<Rightarrow> 'a list \<Rightarrow> 'a list" where
  "stable_sort key xs = foldr (insort_lt key) xs []"

text \<open>
  \<open>list.sort(key=lambda x: x.confidence, reverse=True)\<close>. Python's sort is stable, and with
  \<open>reverse=True\<close> it reverses the list, sorts it ascending and stably, and reverses the
  result. When a confidence is NaN the order is the implementation's.
\<close>

definition sort_by_confidence :: "env \<Rightarrow> product_display list \<Rightarrow> product_display list" where
  "sort_by_confidence E ds =
    (if list_ex (\<lambda>d. confidence d = NaN) ds then nan_sort E ds
     else rev (stable_sort confidence (rev ds)))"

text \<open>Lines 155 to 172: the expansion of the parsed recommendations, then the sort.\<close>

definition expand :: "env \<Rightarrow> json list \<Rightarrow> py_exc + product_display list" where
  "expand E recs =
    (case expand_loop E recs of
       Inl e \<Rightarrow> Inl e
     | Inr ds \<Rightarrow> Inr (sort_by_confidence E ds))"

text \<open>The user message, \<open>f"... {interest}"\<close>: a Thai prefix, a colon and a space.\<close>

definition user_prefix :: pystr where
  "user_prefix = [3621, 3641, 3585, 3588, 3657, 3634, 3626, 3609, 3651, 3592, 58, 32]"

text \<open>The \<open>try\<close> block of \<open>get_recommendations_with_products\<close> (lines 121 to 175).\<close>

definition recommendations_try :: "env \<Rightarrow> pystr \<Rightarrow> handle \<Rightarrow> py_exc + product_display list" where
  "recommendations_try E interest client =
    (case chat_completion E client (user_prefix @ interest) of
       Raised \<Rightarrow> Inl APIError
     | Returned content \<Rightarrow>
        (case json_loads E content of
           None \<Rightarrow> Inl JSONDecodeError
         | Some result \<Rightarrow>
            (case getitem result (u ''recommendations'') of
               Inl e \<Rightarrow> Inl e
             | Inr v \<Rightarrow>
                (case py_iter v of
                   Inl e \<Rightarrow> Inl e
                 | Inr recs \<Rightarrow> expand E recs))))"

text \<open>
  The function with its \<open>except Exception\<close>, which returns \<open>None\<close> for every exception:
  \<open>None\<close> is Python's \<open>None\<close>, \<open>Some ds\<close> the returned list.
\<close>

definition get_recommendations_with_products ::
    "env \<Rightarrow> pystr \<Rightarrow> handle \<Rightarrow> product_display list option" where
  "get_recommendations_with_products E interest client =
    (case recommendations_try E interest client of
       Inl e \<Rightarrow> None
     | Inr ds \<Rightarrow> Some ds)"

section \<open>Session state and the handlers of \<open>main\<close>\<close>

text \<open>\<open>st.session_state\<close> with its two keys; \<open>None\<close> is an absent key.\<close>

record session_state =
  openai_api_key :: "pystr option"
  client :: "handle option"

text \<open>
  What a handler does besides changing the session state: the client it constructs, the
  request it sends, the sidebar and page messages, the rerun.
\<close>

datatype event =
    CreateClient pystr
  | TestRequest handle
  | SidebarWarning
  | SidebarError
  | SidebarSuccess
  | Rerun

text \<open>
  \<open>init_openai_client\<close> (lines 89 to 116): the returned client, \<open>None\<close> for Python's \<open>None\<close>,
  and the events in order. An empty or absent key returns before anything is constructed;
  an exception of the round-trip is reported in the sidebar; a response that is not true
  falls off the end of the function.
\<close>

definition init_openai_client :: "env \<Rightarrow> session_state \<Rightarrow> handle option \<times> event list" where
  "init_openai_client E st =
    (let api_key = (case openai_api_key st of None \<Rightarrow> [] | Some k \<Rightarrow> k) in
     if api_key = [] then (None, [])
     else
       (let c = OpenAI api_key in
        case test_connection E c of
          Raised \<Rightarrow> (None, [CreateClient api_key, TestRequest c, SidebarError])
        | Returned response \<Rightarrow>
            if response then (Some c, [CreateClient api_key, TestRequest c])
            else (None, [CreateClient api_key, TestRequest c])))"

text \<open>
  The handler of the save button (lines 275 to 289), from the submitted \<open>api_key\<close> and the
  session state to the new state and the events.
\<close>

definition main_save_api_key :: "env \<Rightarrow> pystr \<Rightarrow> session_state \<Rightarrow> session_state \<times> event list" where
  "main_save_api_key E api_key st =
    (if api_key = [] then (st, [SidebarWarning])
     else if \<not> validate_api_key api_key then (st, [SidebarError])
     else
       (let st1 = st\<lparr>openai_api_key := Some api_key\<rparr> in
        case init_openai_client E st1 of
          (Some c, evs) \<Rightarrow> (st1\<lparr>client := Some c\<rparr>, evs @ [SidebarSuccess, Rerun])
        | (None, evs) \<Rightarrow> (st1, evs)))"

text \<open>The events that reach the external service or construct its client.\<close>

fun is_external :: "event \<Rightarrow> bool" where
  "is_external (CreateClient k) = True"
| "is_external (TestRequest c) = True"
| "is_external e = False"

text \<open>
  What the page shows after the recommendation button (lines 320, 334 and 359 to 379):
  the page stops before the button when the session has no client; \<open>if products:\<close> is
  false for \<open>None\<close> and for the empty list.
\<close>

datatype page =
    StopNoClient
  | Cards "product_display list"
  | ErrorTryAgain
  | WarningNoInterest

definition main_recommend :: "env \<Rightarrow> session_state \<Rightarrow> pystr \<Rightarrow> page" where
  "main_recommend E st interest =
    (case client st of
       None \<Rightarrow> StopNoClient
     | Some c \<Rightarrow>
        if interest \<noteq> [] then
          (case get_recommendations_with_products E interest c of
             None \<Rightarrow> ErrorTryAgain
           | Some products \<Rightarrow> if products \<noteq> [] then Cards products else ErrorTryAgain)
        else WarningNoInterest)"

section \<open>The specification's records\<close>

text \<open>
  A CategoryRecommendation of the specification, as \<open>json.loads\<close> returns it: a dict with
  a string category, a string reason and the confidence \<open>cv\<close>, which is a \<open>float\<close> or, for
  a number written without fraction or exponent, an \<open>int\<close>.
\<close>

definition category_recommendation :: "pystr \<Rightarrow> pystr \<Rightarrow> json \<Rightarrow> json" where
  "category_recommendation cat r cv =
    JObj [(u ''category'', JStr cat), (u ''reason'', JStr r), (u ''confidence'', cv)]"

text \<open>
  The DisplayItem the specification describes for a recommendation with category \<open>cat\<close>,
  reason \<open>r\<close> and confidence \<open>x\<close>, and a catalog entry \<open>p\<close>.
\<close>

definition display_item :: "pystr \<Rightarrow> pystr \<Rightarrow> pyfloat \<Rightarrow> product \<Rightarrow> product_display" where
  "display_item cat r x p =
    \<lparr>category = cat,
     product_d = p_name p,
     price = Fin (of_int (p_price p)),
     reason = r @ u '' - '' @ p_description p,
     confidence = x,
     image_d = p_image p\<rparr>"

section \<open>A concrete environment\<close>

text \<open>
  A service that accepts one key and answers five interests: with a recommendation
  outside the catalog, with an object that has no recommendations, with text that is
  not JSON, with text that is not JSON either, for its token \<open>NaN\<close>, but that \<open>json.loads\<close>
  accepts, and with a recommendation whose confidence is a very large integer. The
  decoder knows these payloads. No example sorts a NaN, and \<open>nan_sort\<close> is never
  consulted.
\<close>

definition demo_key :: pystr where
  "demo_key = u ''sk-abcdefghijklmnopqrst''"

definition gardening_payload :: pystr where
  \<open>gardening_payload =
    u ''{"recommendations": [{"category": "Gardening", "reason": "plants", "confidence": 0.8}]}''\<close>

definition nan_payload :: pystr where
  \<open>nan_payload = u ''{"recommendations": [], "x": NaN}''\<close>

text \<open>A confidence written as the integer \<open>2 ^ 1024\<close>, in its 309 decimal digits.\<close>

definition huge_payload :: pystr where
  \<open>huge_payload =
    u ''{"recommendations": [{"category": "Cooking", "reason": "r1", "confidence": '' @
      u ''179769313486231590772930519078902473361797697894230657273430081157732675805500'' @
      u ''963132708477322407536021120113879871393357658789768814416622492847430639474124'' @
      u ''377767893424865485276302219601246094119453082952085005768838150682342462881473'' @
      u ''913110540827237163350510684586298239947245938479716304835356329624224137216'' @
      u ''}]}''\<close>

definition demo_env :: env where
  "demo_env =
    \<lparr>test_connection = (\<lambda>c. if c = OpenAI demo_key then Returned True else Raised),
     chat_completion = (\<lambda>c msg.
        if msg = user_prefix @ u ''gardening'' then Returned gardening_payload
        else if msg = user_prefix @ u ''running'' then Returned (u ''{}'')
        else if msg = user_prefix @ u ''broken'' then Returned (u ''Sorry'')
        else if msg = user_prefix @ u ''nan'' then Returned nan_payload
        else if msg = user_prefix @ u ''huge'' then Returned huge_payload
        else Raised),
     json_loads = (\<lambda>s.
        if s = gardening_payload then
          Some (JObj [(u ''recommendations'',
                  JArr [category_recommendation (u ''Gardening'') (u ''plants'')
                          (JFloat (Fin (8 / 10)))])])
        else if s = u ''{}'' then Some (JObj [])
        else if s = nan_payload then
          Some (JObj [(u ''recommendations'', JArr []), (u ''x'', JFloat NaN)])
        else if s = huge_payload then
          Some (JObj [(u ''recommendations'',
                  JArr [category_recommendation (u ''Cooking'') (u ''r1'') (JInt (2 ^ 1024))])])
        else None),
     py_str = (\<lambda>v. u ''?''),
     lax_float = (\<lambda>v. None),
     nan_sort = (\<lambda>ds. ds)\<rparr>"

definition demo_state :: session_state where
  "demo_state = \<lparr>openai_api_key = Some demo_key, client = Some (OpenAI demo_key)\<rparr>"

section \<open>Strings\<close>

lemma u_eq_iff [simp]: "u a = u b \<longleftrightarrow> a = b"
  by (simp add: u_def inj_def)

lemma u_Nil [simp]: "u [] = []"
  by (simp add: u_def)

lemma length_u [simp]: "length (u s) = length s"
  by (simp add: u_def)

lemma u_append: "u a @ u b = u (a @ b)"
  by (simp add: u_def)

lemma startswith_iff: "startswith s p \<longleftrightarrow> (\<exists>t. s = p @ t)"
  unfolding startswith_def by (metis append_eq_conv_conj append_take_drop_id)

section \<open>Credential validation: the format rule\<close>

text \<open>
  Claim C2. For every credential string, \<open>validate_api_key\<close> is true exactly when the
  string starts with the literal prefix \<open>sk-\<close> and has at least 20 characters, so it is
  false when the prefix is missing or the length is below 20; and it is true for
  \<open>sk-abcdefghijklmnopqrst\<close>.
\<close>

theorem validate_api_key_format:
  "(validate_api_key s \<longleftrightarrow> (\<exists>t. s = u ''sk-'' @ t) \<and> 20 \<le> length s)
   \<and> validate_api_key (u ''sk-abcdefghijklmnopqrst'')"
proof
  show "validate_api_key s \<longleftrightarrow> (\<exists>t. s = u ''sk-'' @ t) \<and> 20 \<le> length s"
    by (auto simp: validate_api_key_def startswith_iff)
  show "validate_api_key (u ''sk-abcdefghijklmnopqrst'')"
    by (simp add: validate_api_key_def startswith_def u_def)
qed

section \<open>Floats\<close>

lemma py_lt_irrefl [simp]: "\<not> py_lt a a"
  by (cases a) simp_all

lemma py_lt_asym: "py_lt a b \<Longrightarrow> \<not> py_lt b a"
  by (cases a; cases b) simp_all

lemma py_lt_negtrans:
  "\<not> py_lt z y \<Longrightarrow> \<not> py_lt y x \<Longrightarrow> y \<noteq> NaN \<Longrightarrow> \<not> py_lt z x"
  by (cases x; cases y; cases z) simp_all

lemma py_le_iff: "a \<noteq> NaN \<Longrightarrow> b \<noteq> NaN \<Longrightarrow> py_le a b \<longleftrightarrow> \<not> py_lt b a"
  by (cases a; cases b) simp_all

lemma bit_length_0 [simp]: "bit_length 0 = 0"
  by (simp add: bit_length.simps)

lemma bit_length_range: "2 ^ k \<le> n \<Longrightarrow> n < 2 ^ Suc k \<Longrightarrow> bit_length n = Suc k"
proof (induction k arbitrary: n)
  case 0
  then have "n = 1" by simp
  then show ?case by (simp add: bit_length.simps [of "Suc 0"])
next
  case (Suc k)
  then have "2 ^ k \<le> n div 2" "n div 2 < 2 ^ Suc k" "n \<noteq> 0"
    by auto
  with Suc.IH [of "n div 2"] show ?case
    by (simp add: bit_length.simps [of n])
qed

lemma bit_length_le: "n < 2 ^ k \<Longrightarrow> bit_length n \<le> k"
proof (induction k arbitrary: n)
  case 0
  then show ?case by simp
next
  case (Suc k)
  then have "n div 2 < 2 ^ k" by auto
  with Suc.IH [of "n div 2"] show ?case
    by (simp add: bit_length.simps [of n])
qed

lemma bit_length_2_53: "bit_length 9007199254740992 = 54"
  using bit_length_range [of 53 9007199254740992] by simp

lemma py_float_of_int_exact:
  assumes "\<bar>n\<bar> \<le> 2 ^ 53"
  shows "py_float_of_int n = Some (Fin (of_int n))"
proof (cases "\<bar>n\<bar> = 2 ^ 53")
  case True
  then have "n = 9007199254740992 \<or> n = - 9007199254740992"
    by auto
  then show ?thesis
    by (auto simp: py_float_of_int_def bit_length_2_53 Let_def)
next
  case False
  with assms have "nat \<bar>n\<bar> < 2 ^ 53"
    by (simp add: nat_less_iff)
  then have "bit_length (nat \<bar>n\<bar>) \<le> 53"
    by (rule bit_length_le)
  then show ?thesis
    by (simp add: py_float_of_int_def Let_def)
qed

lemma py_float_of_int_rounds:
  "py_float_of_int (2 ^ 53 + 1) = Some (Fin (2 ^ 53))"
proof -
  have k: "bit_length 9007199254740993 = 54"
    using bit_length_range [of 53 9007199254740993] by simp
  show ?thesis
    by (simp add: py_float_of_int_def k Let_def)
qed

lemma py_float_of_int_overflow:
  "py_float_of_int (2 ^ 1024) = None"
proof -
  define m :: nat where "m = 2 ^ 1024"
  have i: "(2 ^ 1024 :: int) = int m"
    by (simp add: m_def)
  have k: "bit_length m = 1025"
    using bit_length_range [of 1024 m] by (simp add: m_def)
  have s: "1025 - 53 = (972 :: nat)"
    by simp
  have d: "m div 2 ^ 972 = 2 ^ 52"
    unfolding m_def by (simp only: power_diff [symmetric]) simp
  have r: "m mod 2 ^ 972 = 0"
    unfolding m_def by (rule dvd_imp_mod_0) (simp add: le_imp_power_dvd)
  have v: "(2 :: nat) ^ 52 * 2 ^ 972 = m"
    unfolding m_def by (simp only: power_add [symmetric]) simp
  have h: "\<not> (2 :: nat) ^ (972 - 1) < 0" "(0 :: nat) \<noteq> 2 ^ (972 - 1)"
    by simp_all
  have "py_float_of_int (int m) = None"
    unfolding py_float_of_int_def Let_def
    by (simp only: abs_of_nat nat_int k s d r v h) (simp add: m_def)
  then show ?thesis
    by (simp only: i)
qed

section \<open>The stable sort\<close>

lemma mset_insort_lt [simp]: "mset (insort_lt key x ys) = add_mset x (mset ys)"
  by (induction ys) simp_all

lemma mset_stable_sort [simp]: "mset (stable_sort key xs) = mset xs"
  by (induction xs) (simp_all add: stable_sort_def)

lemma set_stable_sort [simp]: "set (stable_sort key xs) = set xs"
  using mset_stable_sort [of key xs] by (metis set_mset_mset)

lemma stable_sort_simps [simp]:
  "stable_sort key [] = []"
  "stable_sort key (x # xs) = insort_lt key x (stable_sort key xs)"
  by (simp_all add: stable_sort_def)

lemma filter_insort_lt:
  "filter (\<lambda>y. key y = k) (insort_lt key x ys) =
     (if key x = k then x # filter (\<lambda>y. key y = k) ys else filter (\<lambda>y. key y = k) ys)"
  by (induction ys) auto

lemma filter_stable_sort:
  "filter (\<lambda>y. key y = k) (stable_sort key xs) = filter (\<lambda>y. key y = k) xs"
  by (induction xs) (simp_all add: filter_insort_lt)

lemma sorted_insort_lt:
  assumes "sorted_wrt (\<lambda>a b. \<not> py_lt (key b) (key a)) ys"
    and "\<forall>y\<in>set ys. key y \<noteq> NaN"
  shows "sorted_wrt (\<lambda>a b. \<not> py_lt (key b) (key a)) (insort_lt key x ys)"
  using assms
proof (induction ys)
  case Nil
  then show ?case by simp
next
  case (Cons y ys)
  show ?case
  proof (cases "py_lt (key y) (key x)")
    case True
    then have "\<not> py_lt (key x) (key y)"
      by (rule py_lt_asym)
    with True Cons show ?thesis
      by (auto simp: in_multiset_in_set [symmetric] simp del: set_mset_mset)
  next
    case False
    have "\<not> py_lt (key z) (key x)" if "z \<in> set ys" for z
    proof -
      from Cons.prems that have "\<not> py_lt (key z) (key y)" "key y \<noteq> NaN"
        by auto
      with False show ?thesis
        using py_lt_negtrans by blast
    qed
    with False Cons.prems show ?thesis
      by auto
  qed
qed

lemma sorted_stable_sort:
  assumes "\<forall>x\<in>set xs. key x \<noteq> NaN"
  shows "sorted_wrt (\<lambda>a b. \<not> py_lt (key b) (key a)) (stable_sort key xs)"
  using assms by (induction xs) (simp_all add: sorted_insort_lt)

lemma map_insort_lt: "map key (insort_lt key x ys) = insort_lt (\<lambda>k. k) (key x) (map key ys)"
  by (induction ys) simp_all

lemma map_stable_sort: "map key (stable_sort key xs) = stable_sort (\<lambda>k. k) (map key xs)"
  by (induction xs) (simp_all add: map_insort_lt)

section \<open>The sort by confidence\<close>

lemma sort_by_confidence_total:
  assumes "\<forall>d\<in>set ds. confidence d \<noteq> NaN"
  shows "sort_by_confidence E ds = rev (stable_sort confidence (rev ds))"
  using assms by (simp add: sort_by_confidence_def list_ex_iff)

lemma sort_by_confidence_Nil [simp]: "sort_by_confidence E [] = []"
  by (simp add: sort_by_confidence_def)

lemma sorted_sort_by_confidence:
  assumes "\<forall>d\<in>set ds. confidence d \<noteq> NaN"
  shows "sorted_wrt (\<lambda>a b. py_le (confidence b) (confidence a)) (sort_by_confidence E ds)"
proof -
  have "sorted_wrt (\<lambda>a b. \<not> py_lt (confidence b) (confidence a)) (stable_sort confidence (rev ds))"
    using assms by (intro sorted_stable_sort) simp
  then have "sorted_wrt (\<lambda>a b. \<not> py_lt (confidence a) (confidence b)) (sort_by_confidence E ds)"
    using assms by (simp add: sort_by_confidence_total sorted_wrt_rev)
  moreover have "\<forall>d\<in>set (sort_by_confidence E ds). confidence d \<noteq> NaN"
    using assms by (simp add: sort_by_confidence_total)
  ultimately show ?thesis
    by (auto elim!: sorted_wrt_mono_rel [rotated] simp: py_le_iff)
qed

lemma filter_sort_by_confidence:
  assumes "\<forall>d\<in>set ds. confidence d \<noteq> NaN"
  shows "filter (\<lambda>d. confidence d = k) (sort_by_confidence E ds) = filter (\<lambda>d. confidence d = k) ds"
  using assms
  by (simp add: sort_by_confidence_total rev_filter [symmetric] filter_stable_sort)

lemma mset_sort_by_confidence:
  assumes "\<forall>d\<in>set ds. confidence d \<noteq> NaN"
  shows "mset (sort_by_confidence E ds) = mset ds"
  using assms by (simp add: sort_by_confidence_total)

lemma sort_by_confidence_const:
  assumes "\<forall>d\<in>set ds. confidence d = k" and "k \<noteq> NaN"
  shows "sort_by_confidence E ds = ds"
proof -
  have n: "\<forall>d\<in>set ds. confidence d \<noteq> NaN"
    using assms by simp
  then have "\<forall>d\<in>set (sort_by_confidence E ds). confidence d = k"
    using assms by (simp add: sort_by_confidence_total)
  then have "filter (\<lambda>d. confidence d = k) (sort_by_confidence E ds) = sort_by_confidence E ds"
    by (simp add: filter_id_conv)
  moreover have "filter (\<lambda>d. confidence d = k) ds = ds"
    using assms by (simp add: filter_id_conv)
  ultimately show ?thesis
    using filter_sort_by_confidence [OF n, of k E] by simp
qed

lemma map_confidence_sort:
  assumes "\<forall>d\<in>set ds. confidence d \<noteq> NaN"
  shows "map confidence (sort_by_confidence E ds) =
           rev (stable_sort (\<lambda>k. k) (rev (map confidence ds)))"
proof -
  have "map confidence (sort_by_confidence E ds) =
      rev (map confidence (stable_sort confidence (rev ds)))"
    using assms by (simp add: sort_by_confidence_total rev_map)
  also have "\<dots> = rev (stable_sort (\<lambda>k. k) (map confidence (rev ds)))"
    by (simp only: map_stable_sort)
  finally show ?thesis
    by (simp only: rev_map)
qed

section \<open>The catalog\<close>

lemma catalog_lookup:
  "map_of PRODUCT_CATALOG (u ''Sports & Fitness'') = Some sports_products"
  "map_of PRODUCT_CATALOG (u ''Photography'') = Some photography_products"
  "map_of PRODUCT_CATALOG (u ''Cooking'') = Some cooking_products"
  "map_of PRODUCT_CATALOG (u ''Gardening'') = None"
  by (simp_all add: PRODUCT_CATALOG_def)

lemma catalog_keys:
  "map_of PRODUCT_CATALOG cat = Some ps \<longleftrightarrow>
     cat = u ''Sports & Fitness'' \<and> ps = sports_products
   \<or> cat = u ''Photography'' \<and> ps = photography_products
   \<or> cat = u ''Cooking'' \<and> ps = cooking_products"
  by (auto simp: PRODUCT_CATALOG_def)

lemma lengths:
  "length cooking_products = 3" "length sports_products = 3" "length photography_products = 3"
  by (simp_all add: cooking_products_def sports_products_def photography_products_def)

lemma catalog_prices:
  assumes "map_of PRODUCT_CATALOG cat = Some ps"
  shows "\<forall>p\<in>set ps. \<bar>p_price p\<bar> \<le> 2 ^ 53"
  using assms unfolding catalog_keys
  by (auto simp: cooking_products_def sports_products_def photography_products_def)

lemma catalog_nonempty:
  assumes "map_of PRODUCT_CATALOG cat = Some ps"
  shows "ps \<noteq> []"
  using assms unfolding catalog_keys
  by (auto simp: cooking_products_def sports_products_def photography_products_def)

section \<open>The mapper on well-typed recommendations\<close>

lemma getitem_category_recommendation:
  "getitem (category_recommendation cat r cv) (u ''category'') = Inr (JStr cat)"
  "getitem (category_recommendation cat r cv) (u ''reason'') = Inr (JStr r)"
  "getitem (category_recommendation cat r cv) (u ''confidence'') = Inr cv"
  by (simp_all add: category_recommendation_def)

lemma validate_float_int:
  "\<bar>n\<bar> \<le> 2 ^ 53 \<Longrightarrow> validate_float E (JInt n) = Inr (Fin (of_int n))"
  by (simp add: py_float_of_int_exact)

lemma make_display_typed:
  assumes "\<bar>p_price p\<bar> \<le> 2 ^ 53"
  shows "make_display E (category_recommendation cat r cv) cat p =
    (case validate_float E cv of Inl e \<Rightarrow> Inl e | Inr x \<Rightarrow> Inr (display_item cat r x p))"
  using assms
  by (simp add: make_display_def getitem_category_recommendation display_item_def
      py_float_of_int_exact split: sum.split)

lemma expand_products_typed:
  assumes "\<forall>p\<in>set ps. \<bar>p_price p\<bar> \<le> 2 ^ 53"
  shows "expand_products E (category_recommendation cat r cv) cat ps =
    (case validate_float E cv of
       Inl e \<Rightarrow> if ps = [] then Inr [] else Inl e
     | Inr x \<Rightarrow> Inr (map (display_item cat r x) ps))"
  using assms by (induction ps) (auto simp: make_display_typed split: sum.splits)

lemma expand_rec_typed:
  "expand_rec E (category_recommendation cat r cv) =
     (case map_of PRODUCT_CATALOG cat of
        None \<Rightarrow> Inr []
      | Some ps \<Rightarrow>
         (case validate_float E cv of
            Inl e \<Rightarrow> Inl e
          | Inr x \<Rightarrow> Inr (map (display_item cat r x) ps)))"
proof (cases "map_of PRODUCT_CATALOG cat")
  case None
  then show ?thesis
    by (simp add: expand_rec_def getitem_category_recommendation)
next
  case (Some ps)
  from catalog_prices [OF Some] catalog_nonempty [OF Some] Some show ?thesis
    by (simp add: expand_rec_def getitem_category_recommendation expand_products_typed
        split: sum.split)
qed

lemma expand_rec_float:
  "expand_rec E (category_recommendation cat r (JFloat x)) =
     (case map_of PRODUCT_CATALOG cat of
        None \<Rightarrow> Inr []
      | Some ps \<Rightarrow> Inr (map (display_item cat r x) ps))"
  by (simp add: expand_rec_typed split: option.split)

lemma expand_rec_int:
  "expand_rec E (category_recommendation cat r (JInt n)) =
     (case map_of PRODUCT_CATALOG cat of
        None \<Rightarrow> Inr []
      | Some ps \<Rightarrow>
         (case py_float_of_int n of
            None \<Rightarrow> Inl ValidationError
          | Some x \<Rightarrow> Inr (map (display_item cat r x) ps)))"
  by (simp add: expand_rec_typed split: option.split)

lemma confidence_display_item [simp]: "confidence (display_item cat r x p) = x"
  by (simp add: display_item_def)

lemma expand_loop_append:
  "expand_loop E (xs @ ys) =
    (case expand_loop E xs of
       Inl e \<Rightarrow> Inl e
     | Inr a \<Rightarrow> (case expand_loop E ys of Inl e \<Rightarrow> Inl e | Inr b \<Rightarrow> Inr (a @ b)))"
  by (induction xs) (simp_all split: sum.split)

lemma expand_loop_concat:
  "expand_loop E recs = Inr es \<Longrightarrow>
     \<exists>ess. list_all2 (\<lambda>rec ds. expand_rec E rec = Inr ds) recs ess \<and> es = concat ess"
proof (induction recs arbitrary: es)
  case Nil
  then show ?case by simp
next
  case (Cons rec recs)
  then obtain ds rest where a: "expand_rec E rec = Inr ds" "expand_loop E recs = Inr rest" "es = ds @ rest"
    by (auto split: sum.splits)
  from Cons.IH [OF a(2)] obtain ess where "list_all2 (\<lambda>rec ds. expand_rec E rec = Inr ds) recs ess" "rest = concat ess"
    by blast
  with a have "list_all2 (\<lambda>rec ds. expand_rec E rec = Inr ds) (rec # recs) (ds # ess) \<and> es = concat (ds # ess)"
    by simp
  then show ?case by blast
qed

lemma expand_loop_fails:
  "rec \<in> set recs \<Longrightarrow> expand_rec E rec = Inl e \<Longrightarrow> \<exists>e'. expand_loop E recs = Inl e'"
  by (induction recs) (auto split: sum.splits)

lemma expand_single:
  assumes "map_of PRODUCT_CATALOG cat = Some ps" and "x \<noteq> NaN"
  shows "expand E [category_recommendation cat r (JFloat x)] = Inr (map (display_item cat r x) ps)"
proof -
  have "sort_by_confidence E (map (display_item cat r x) ps) = map (display_item cat r x) ps"
    using assms(2) by (intro sort_by_confidence_const [of _ x]) simp_all
  then show ?thesis
    using assms(1) by (simp add: expand_def expand_rec_float)
qed

lemma get_recommendations_expand:
  assumes "chat_completion E c (user_prefix @ interest) = Returned content"
    and "json_loads E content = Some result"
    and "getitem result (u ''recommendations'') = Inr v"
    and "py_iter v = Inr recs"
  shows "get_recommendations_with_products E interest c =
    (case expand E recs of Inl e \<Rightarrow> None | Inr ds \<Rightarrow> Some ds)"
  using assms by (simp add: get_recommendations_with_products_def recommendations_try_def)

lemma getitem_missing:
  assumes "\<forall>kvs. result = JObj kvs \<longrightarrow> map_of kvs k = None"
  shows "\<exists>e. getitem result k = Inl e"
  using assms by (cases result) simp_all

lemma expand_loop_no_match:
  assumes "\<forall>rec\<in>set recs. \<exists>fs cat. rec = JObj fs \<and> map_of fs (u ''category'') = Some (JStr cat)
              \<and> map_of PRODUCT_CATALOG cat = None"
  shows "expand_loop E recs = Inr []"
  using assms
proof (induction recs)
  case Nil
  then show ?case by simp
next
  case (Cons rec recs)
  then obtain fs cat where "rec = JObj fs" "map_of fs (u ''category'') = Some (JStr cat)"
      "map_of PRODUCT_CATALOG cat = None"
    by auto
  then have "expand_rec E rec = Inr []"
    by (simp add: expand_rec_def)
  moreover have "expand_loop E recs = Inr []"
    using Cons by simp
  ultimately show ?case by simp
qed

section \<open>The concrete environment's replies\<close>

lemma demo_strings:
  "gardening_payload \<noteq> u ''{}''"
  "u ''{}'' \<noteq> gardening_payload"
  "u ''Sorry'' \<noteq> gardening_payload"
  "u ''Sorry'' \<noteq> nan_payload"
  "u ''Sorry'' \<noteq> huge_payload"
  "nan_payload \<noteq> gardening_payload"
  "nan_payload \<noteq> u ''{}''"
  "huge_payload \<noteq> gardening_payload"
  "huge_payload \<noteq> u ''{}''"
  "huge_payload \<noteq> nan_payload"
  by (simp_all add: gardening_payload_def nan_payload_def huge_payload_def u_append)

lemma demo_gardening:
  "get_recommendations_with_products demo_env (u ''gardening'') c = Some []"
  by (simp add: get_recommendations_with_products_def recommendations_try_def demo_env_def
      expand_def expand_rec_float catalog_lookup)

lemma demo_running:
  "get_recommendations_with_products demo_env (u ''running'') c = None"
  by (simp add: get_recommendations_with_products_def recommendations_try_def demo_env_def
      demo_strings)

lemma demo_nan:
  "get_recommendations_with_products demo_env (u ''nan'') c = Some []"
  by (simp add: get_recommendations_with_products_def recommendations_try_def demo_env_def
      demo_strings expand_def)

lemma demo_huge:
  "get_recommendations_with_products demo_env (u ''huge'') c = None"
  by (simp add: get_recommendations_with_products_def recommendations_try_def demo_env_def
      demo_strings expand_def expand_rec_int catalog_lookup py_float_of_int_overflow
      del: power_numeral)

section \<open>Properties of the expansion\<close>

text \<open>
  Claim C3. In every list of recommendations, a recommendation whose category is a key
  of the catalog contributes exactly one display per entry of that category's list: all
  the entries, in the catalog's order, between the displays of the recommendations
  before it and after it, each with the reason \<open>"{rec.reason} - {entry.description}"\<close> and
  the recommendation's confidence unchanged (a float as it is, an integer of magnitude
  at most \<open>2 ^ 53\<close> as the float of the same value). The result is the sort of that list,
  which keeps every display exactly once when no confidence is NaN. For the single
  recommendation Cooking, r1, 0.9 the result is the three Cooking products in catalog
  order, each with confidence 0.9.
\<close>

theorem expand_matched_category:
  assumes "map_of PRODUCT_CATALOG cat = Some products"
    and "cv = JFloat x \<or> (\<exists>n. cv = JInt n \<and> \<bar>n\<bar> \<le> 2 ^ 53 \<and> x = Fin (of_int n))"
    and "expand_loop E recs1 = Inr ds1"
    and "expand_loop E recs2 = Inr ds2"
  shows "expand_rec E (category_recommendation cat r cv) =
           Inr (map (display_item cat r x) products)
    \<and> expand_loop E (recs1 @ category_recommendation cat r cv # recs2) =
           Inr (ds1 @ map (display_item cat r x) products @ ds2)
    \<and> expand E (recs1 @ category_recommendation cat r cv # recs2) =
           Inr (sort_by_confidence E (ds1 @ map (display_item cat r x) products @ ds2))
    \<and> ((\<forall>d\<in>set (ds1 @ map (display_item cat r x) products @ ds2). confidence d \<noteq> NaN) \<longrightarrow>
         mset (sort_by_confidence E (ds1 @ map (display_item cat r x) products @ ds2)) =
         mset (ds1 @ map (display_item cat r x) products @ ds2))
    \<and> (\<exists>ds. expand E [category_recommendation (u ''Cooking'') (u ''r1'') (JFloat (Fin (9 / 10)))] =
               Inr ds
          \<and> ds = map (display_item (u ''Cooking'') (u ''r1'') (Fin (9 / 10))) cooking_products
          \<and> length ds = 3
          \<and> map confidence ds = [Fin (9 / 10), Fin (9 / 10), Fin (9 / 10)]
          \<and> map product_d ds =
              [u ''Instant Pot Duo'', u ''Vitamix Blender'', u ''Kitchen Scale Digital''])"
proof -
  have "validate_float E cv = Inr x"
    using assms(2)
  proof
    assume "cv = JFloat x"
    then show ?thesis by simp
  next
    assume "\<exists>n. cv = JInt n \<and> \<bar>n\<bar> \<le> 2 ^ 53 \<and> x = Fin (of_int n)"
    then obtain n where "cv = JInt n" "\<bar>n\<bar> \<le> 2 ^ 53" "x = Fin (of_int n)"
      by blast
    then show ?thesis
      using validate_float_int [of n E] by (simp only:)
  qed
  then have a: "expand_rec E (category_recommendation cat r cv) =
      Inr (map (display_item cat r x) products)"
    using assms(1) by (simp add: expand_rec_typed)
  then have b: "expand_loop E (recs1 @ category_recommendation cat r cv # recs2) =
      Inr (ds1 @ map (display_item cat r x) products @ ds2)"
    using assms(3,4) by (simp add: expand_loop_append)
  then have c: "expand E (recs1 @ category_recommendation cat r cv # recs2) =
      Inr (sort_by_confidence E (ds1 @ map (display_item cat r x) products @ ds2))"
    by (simp add: expand_def)
  have d: "(\<forall>d\<in>set (ds1 @ map (display_item cat r x) products @ ds2). confidence d \<noteq> NaN) \<longrightarrow>
         mset (sort_by_confidence E (ds1 @ map (display_item cat r x) products @ ds2)) =
         mset (ds1 @ map (display_item cat r x) products @ ds2)"
    using mset_sort_by_confidence by blast
  have "expand E [category_recommendation (u ''Cooking'') (u ''r1'') (JFloat (Fin (9 / 10)))] =
      Inr (map (display_item (u ''Cooking'') (u ''r1'') (Fin (9 / 10))) cooking_products)"
    by (rule expand_single) (simp_all add: catalog_lookup)
  moreover have "map product_d (map (display_item (u ''Cooking'') (u ''r1'') (Fin (9 / 10))) cooking_products) =
      [u ''Instant Pot Duo'', u ''Vitamix Blender'', u ''Kitchen Scale Digital'']"
    by (simp add: cooking_products_def display_item_def)
  moreover have "map confidence (map (display_item (u ''Cooking'') (u ''r1'') (Fin (9 / 10))) cooking_products) =
      [Fin (9 / 10), Fin (9 / 10), Fin (9 / 10)]"
    by (simp add: cooking_products_def)
  ultimately have e: "\<exists>ds. expand E [category_recommendation (u ''Cooking'') (u ''r1'') (JFloat (Fin (9 / 10)))] =
               Inr ds
          \<and> ds = map (display_item (u ''Cooking'') (u ''r1'') (Fin (9 / 10))) cooking_products
          \<and> length ds = 3
          \<and> map confidence ds = [Fin (9 / 10), Fin (9 / 10), Fin (9 / 10)]
          \<and> map product_d ds =
              [u ''Instant Pot Duo'', u ''Vitamix Blender'', u ''Kitchen Scale Digital'']"
    by (simp add: lengths)
  from a b c d e show ?thesis
    by blast
qed

theorem expand_matched_category_witness:
  "map_of PRODUCT_CATALOG (u ''Photography'') = Some photography_products
   \<and> expand_loop demo_env
        [category_recommendation (u ''Cooking'') (u ''a'') (JFloat (Fin (1 / 2)))] =
       Inr (map (display_item (u ''Cooking'') (u ''a'') (Fin (1 / 2))) cooking_products)
   \<and> expand_loop demo_env
        [category_recommendation (u ''Gardening'') (u ''c'') (JFloat (Fin (1 / 4)))] = Inr []
   \<and> expand_loop demo_env
        ([category_recommendation (u ''Cooking'') (u ''a'') (JFloat (Fin (1 / 2)))] @
         category_recommendation (u ''Photography'') (u ''b'') (JInt 1) #
         [category_recommendation (u ''Gardening'') (u ''c'') (JFloat (Fin (1 / 4)))]) =
       Inr (map (display_item (u ''Cooking'') (u ''a'') (Fin (1 / 2))) cooking_products @
            map (display_item (u ''Photography'') (u ''b'') (Fin 1)) photography_products @ [])"
proof -
  have a: "map_of PRODUCT_CATALOG (u ''Photography'') = Some photography_products"
    by (rule catalog_lookup)
  have b: "JInt 1 = JFloat (Fin 1) \<or> (\<exists>n. JInt 1 = JInt n \<and> \<bar>n\<bar> \<le> 2 ^ 53 \<and> Fin 1 = Fin (of_int n))"
    by simp
  have c: "expand_loop demo_env
        [category_recommendation (u ''Cooking'') (u ''a'') (JFloat (Fin (1 / 2)))] =
       Inr (map (display_item (u ''Cooking'') (u ''a'') (Fin (1 / 2))) cooking_products)"
    by (simp add: expand_rec_float catalog_lookup)
  have d: "expand_loop demo_env
        [category_recommendation (u ''Gardening'') (u ''c'') (JFloat (Fin (1 / 4)))] = Inr []"
    by (simp add: expand_rec_float catalog_lookup)
  from expand_matched_category [OF a b c d, of "u ''b''"] a c d show ?thesis
    by blast
qed

text \<open>
  Claim C4. For every list of recommendations whose expansion holds no NaN confidence,
  the list that the expansion returns, and \<open>get_recommendations_with_products\<close> with it, is
  sorted by confidence in descending order. For Cooking with 0.9 followed by
  Sports \<open>&\<close> Fitness with 0.95, every Sports \<open>&\<close> Fitness display comes before every
  Cooking display.
\<close>

theorem expand_sorted_descending:
  assumes "expand_loop E recs = Inr es"
    and "\<forall>d\<in>set es. confidence d \<noteq> NaN"
  shows "(\<exists>ds. expand E recs = Inr ds
            \<and> sorted_wrt (\<lambda>a b. py_le (confidence b) (confidence a)) ds
            \<and> (\<forall>interest c content result v.
                  chat_completion E c (user_prefix @ interest) = Returned content \<longrightarrow>
                  json_loads E content = Some result \<longrightarrow>
                  getitem result (u ''recommendations'') = Inr v \<longrightarrow>
                  py_iter v = Inr recs \<longrightarrow>
                  get_recommendations_with_products E interest c = Some ds))
    \<and> expand E [category_recommendation (u ''Cooking'') r1 (JFloat (Fin (9 / 10))),
                 category_recommendation (u ''Sports & Fitness'') r2 (JFloat (Fin (95 / 100)))] =
       Inr (map (display_item (u ''Sports & Fitness'') r2 (Fin (95 / 100))) sports_products @
            map (display_item (u ''Cooking'') r1 (Fin (9 / 10))) cooking_products)"
proof -
  have a: "expand E recs = Inr (sort_by_confidence E es)"
    using assms(1) by (simp add: expand_def)
  have b: "sorted_wrt (\<lambda>a b. py_le (confidence b) (confidence a)) (sort_by_confidence E es)"
    using assms(2) by (rule sorted_sort_by_confidence)
  have c: "get_recommendations_with_products E interest c = Some (sort_by_confidence E es)"
    if "chat_completion E c (user_prefix @ interest) = Returned content"
      "json_loads E content = Some result"
      "getitem result (u ''recommendations'') = Inr v"
      "py_iter v = Inr recs"
    for interest c content result v
    using get_recommendations_expand [OF that] a by simp
  have d: "expand E [category_recommendation (u ''Cooking'') r1 (JFloat (Fin (9 / 10))),
                 category_recommendation (u ''Sports & Fitness'') r2 (JFloat (Fin (95 / 100)))] =
       Inr (map (display_item (u ''Sports & Fitness'') r2 (Fin (95 / 100))) sports_products @
            map (display_item (u ''Cooking'') r1 (Fin (9 / 10))) cooking_products)"
    by (simp add: expand_def expand_rec_float catalog_lookup sort_by_confidence_def
        cooking_products_def sports_products_def)
  from a b c d show ?thesis
    by blast
qed

theorem expand_sorted_descending_witness:
  "expand_loop demo_env
      [category_recommendation (u ''Photography'') (u ''a'') (JFloat (Fin (1 / 2))),
       category_recommendation (u ''Cooking'') (u ''b'') (JFloat PosInf)] =
     Inr (map (display_item (u ''Photography'') (u ''a'') (Fin (1 / 2))) photography_products @
          map (display_item (u ''Cooking'') (u ''b'') PosInf) cooking_products)
   \<and> expand demo_env
      [category_recommendation (u ''Photography'') (u ''a'') (JFloat (Fin (1 / 2))),
       category_recommendation (u ''Cooking'') (u ''b'') (JFloat PosInf)] =
     Inr (map (display_item (u ''Cooking'') (u ''b'') PosInf) cooking_products @
          map (display_item (u ''Photography'') (u ''a'') (Fin (1 / 2))) photography_products)
   \<and> sorted_wrt (\<lambda>a b. py_le (confidence b) (confidence a))
       (map (display_item (u ''Cooking'') (u ''b'') PosInf) cooking_products @
        map (display_item (u ''Photography'') (u ''a'') (Fin (1 / 2))) photography_products)"
proof -
  have l: "expand_loop demo_env
      [category_recommendation (u ''Photography'') (u ''a'') (JFloat (Fin (1 / 2))),
       category_recommendation (u ''Cooking'') (u ''b'') (JFloat PosInf)] =
     Inr (map (display_item (u ''Photography'') (u ''a'') (Fin (1 / 2))) photography_products @
          map (display_item (u ''Cooking'') (u ''b'') PosInf) cooking_products)"
    by (simp add: expand_rec_float catalog_lookup)
  have n: "\<forall>d\<in>set (map (display_item (u ''Photography'') (u ''a'') (Fin (1 / 2))) photography_products @
          map (display_item (u ''Cooking'') (u ''b'') PosInf) cooking_products). confidence d \<noteq> NaN"
    by auto
  have e: "expand demo_env
      [category_recommendation (u ''Photography'') (u ''a'') (JFloat (Fin (1 / 2))),
       category_recommendation (u ''Cooking'') (u ''b'') (JFloat PosInf)] =
     Inr (map (display_item (u ''Cooking'') (u ''b'') PosInf) cooking_products @
          map (display_item (u ''Photography'') (u ''a'') (Fin (1 / 2))) photography_products)"
    by (simp add: expand_def expand_rec_float catalog_lookup sort_by_confidence_def
        cooking_products_def photography_products_def)
  from expand_sorted_descending [OF l n] l e show ?thesis
    by auto
qed

text \<open>
  Claim C5. A recommendation whose category is a string that is no key of the catalog
  contributes no display and raises nothing: its other fields are not even read, and
  the expansion of a list is the same with and without it. A recommendation for
  Gardening contributes the empty list.
\<close>

theorem expand_skips_unknown_category:
  assumes "map_of PRODUCT_CATALOG cat = None"
    and "map_of kvs (u ''category'') = Some (JStr cat)"
  shows "expand_rec E (JObj kvs) = Inr []
    \<and> expand_loop E (recs1 @ JObj kvs # recs2) = expand_loop E (recs1 @ recs2)
    \<and> expand E (recs1 @ JObj kvs # recs2) = expand E (recs1 @ recs2)
    \<and> expand_rec E (category_recommendation (u ''Gardening'') r x) = Inr []"
proof -
  have a: "expand_rec E (JObj kvs) = Inr []"
    using assms by (simp add: expand_rec_def)
  then have b: "expand_loop E (recs1 @ JObj kvs # recs2) = expand_loop E (recs1 @ recs2)"
    by (simp add: expand_loop_append split: sum.split)
  have "expand_rec E (category_recommendation (u ''Gardening'') r x) = Inr []"
    by (simp add: expand_rec_typed catalog_lookup)
  with a b show ?thesis
    by (simp add: expand_def)
qed

theorem expand_skips_unknown_category_witness:
  "map_of PRODUCT_CATALOG (u ''Gardening'') = None
   \<and> map_of [(u ''category'', JStr (u ''Gardening''))] (u ''category'') = Some (JStr (u ''Gardening''))
   \<and> expand_rec demo_env (JObj [(u ''category'', JStr (u ''Gardening''))]) = Inr []
   \<and> expand demo_env
        ([category_recommendation (u ''Cooking'') (u ''b'') (JFloat (Fin (3 / 4)))]
          @ JObj [(u ''category'', JStr (u ''Gardening''))] # []) =
      expand demo_env ([category_recommendation (u ''Cooking'') (u ''b'') (JFloat (Fin (3 / 4)))] @ [])"
  using expand_skips_unknown_category [of "u ''Gardening''" "[(u ''category'', JStr (u ''Gardening''))]"
      demo_env "[category_recommendation (u ''Cooking'') (u ''b'') (JFloat (Fin (3 / 4)))]" "[]"]
  by (simp add: catalog_lookup)

text \<open>
  Claim C9. The sort is stable: for every list of recommendations whose expansion holds
  no NaN confidence, the displays of any one confidence stand in the result in the
  order of their expansion, which is the order of the recommendations in the input and,
  within a recommendation, the catalog's order. Two recommendations with the same
  confidence keep their input order.
\<close>

theorem expand_sort_is_stable:
  assumes "expand_loop E recs = Inr es"
    and "\<forall>d\<in>set es. confidence d \<noteq> NaN"
  shows "(\<exists>ess ds. list_all2 (\<lambda>rec ds. expand_rec E rec = Inr ds) recs ess
            \<and> es = concat ess
            \<and> expand E recs = Inr ds
            \<and> (\<forall>k. filter (\<lambda>d. confidence d = k) ds =
                     filter (\<lambda>d. confidence d = k) (concat ess)))
    \<and> expand E [category_recommendation (u ''Cooking'') r1 (JFloat (Fin a)),
                 category_recommendation (u ''Sports & Fitness'') r2 (JFloat (Fin a))] =
       Inr (map (display_item (u ''Cooking'') r1 (Fin a)) cooking_products @
            map (display_item (u ''Sports & Fitness'') r2 (Fin a)) sports_products)"
proof
  from expand_loop_concat [OF assms(1)] obtain ess
    where ess: "list_all2 (\<lambda>rec ds. expand_rec E rec = Inr ds) recs ess" "es = concat ess"
    by blast
  have "expand E recs = Inr (sort_by_confidence E es)"
    using assms(1) by (simp add: expand_def)
  moreover have "\<forall>k. filter (\<lambda>d. confidence d = k) (sort_by_confidence E es) =
      filter (\<lambda>d. confidence d = k) (concat ess)"
    using filter_sort_by_confidence [OF assms(2)] ess(2) by simp
  ultimately show "\<exists>ess ds. list_all2 (\<lambda>rec ds. expand_rec E rec = Inr ds) recs ess
            \<and> es = concat ess
            \<and> expand E recs = Inr ds
            \<and> (\<forall>k. filter (\<lambda>d. confidence d = k) ds =
                     filter (\<lambda>d. confidence d = k) (concat ess))"
    using ess by blast
  have "sort_by_confidence E
          (map (display_item (u ''Cooking'') r1 (Fin a)) cooking_products @
           map (display_item (u ''Sports & Fitness'') r2 (Fin a)) sports_products) =
        map (display_item (u ''Cooking'') r1 (Fin a)) cooking_products @
        map (display_item (u ''Sports & Fitness'') r2 (Fin a)) sports_products"
    by (rule sort_by_confidence_const [of _ "Fin a"]) auto
  then show "expand E [category_recommendation (u ''Cooking'') r1 (JFloat (Fin a)),
                 category_recommendation (u ''Sports & Fitness'') r2 (JFloat (Fin a))] =
       Inr (map (display_item (u ''Cooking'') r1 (Fin a)) cooking_products @
            map (display_item (u ''Sports & Fitness'') r2 (Fin a)) sports_products)"
    by (simp add: expand_def expand_rec_float catalog_lookup)
qed

theorem expand_sort_is_stable_witness:
  "expand_loop demo_env
      [category_recommendation (u ''Photography'') (u ''a'') (JFloat (Fin (1 / 2))),
       category_recommendation (u ''Cooking'') (u ''b'') (JFloat (Fin (3 / 4))),
       category_recommendation (u ''Sports & Fitness'') (u ''c'') (JFloat (Fin (1 / 2)))] =
     Inr (map (display_item (u ''Photography'') (u ''a'') (Fin (1 / 2))) photography_products @
          map (display_item (u ''Cooking'') (u ''b'') (Fin (3 / 4))) cooking_products @
          map (display_item (u ''Sports & Fitness'') (u ''c'') (Fin (1 / 2))) sports_products)
   \<and> expand demo_env
      [category_recommendation (u ''Photography'') (u ''a'') (JFloat (Fin (1 / 2))),
       category_recommendation (u ''Cooking'') (u ''b'') (JFloat (Fin (3 / 4))),
       category_recommendation (u ''Sports & Fitness'') (u ''c'') (JFloat (Fin (1 / 2)))] =
     Inr (map (display_item (u ''Cooking'') (u ''b'') (Fin (3 / 4))) cooking_products @
          map (display_item (u ''Photography'') (u ''a'') (Fin (1 / 2))) photography_products @
          map (display_item (u ''Sports & Fitness'') (u ''c'') (Fin (1 / 2))) sports_products)
   \<and> (\<exists>ess ds. list_all2 (\<lambda>rec ds. expand_rec demo_env rec = Inr ds)
               [category_recommendation (u ''Photography'') (u ''a'') (JFloat (Fin (1 / 2))),
                category_recommendation (u ''Cooking'') (u ''b'') (JFloat (Fin (3 / 4))),
                category_recommendation (u ''Sports & Fitness'') (u ''c'') (JFloat (Fin (1 / 2)))] ess
            \<and> expand demo_env
                [category_recommendation (u ''Photography'') (u ''a'') (JFloat (Fin (1 / 2))),
                 category_recommendation (u ''Cooking'') (u ''b'') (JFloat (Fin (3 / 4))),
                 category_recommendation (u ''Sports & Fitness'') (u ''c'') (JFloat (Fin (1 / 2)))] =
                Inr ds
            \<and> (\<forall>k. filter (\<lambda>d. confidence d = k) ds =
                     filter (\<lambda>d. confidence d = k) (concat ess)))"
proof -
  have l: "expand_loop demo_env
      [category_recommendation (u ''Photography'') (u ''a'') (JFloat (Fin (1 / 2))),
       category_recommendation (u ''Cooking'') (u ''b'') (JFloat (Fin (3 / 4))),
       category_recommendation (u ''Sports & Fitness'') (u ''c'') (JFloat (Fin (1 / 2)))] =
     Inr (map (display_item (u ''Photography'') (u ''a'') (Fin (1 / 2))) photography_products @
          map (display_item (u ''Cooking'') (u ''b'') (Fin (3 / 4))) cooking_products @
          map (display_item (u ''Sports & Fitness'') (u ''c'') (Fin (1 / 2))) sports_products)"
    by (simp add: expand_rec_float catalog_lookup)
  have n: "\<forall>d\<in>set (map (display_item (u ''Photography'') (u ''a'') (Fin (1 / 2))) photography_products @
          map (display_item (u ''Cooking'') (u ''b'') (Fin (3 / 4))) cooking_products @
          map (display_item (u ''Sports & Fitness'') (u ''c'') (Fin (1 / 2))) sports_products).
        confidence d \<noteq> NaN"
    by auto
  have e: "expand demo_env
      [category_recommendation (u ''Photography'') (u ''a'') (JFloat (Fin (1 / 2))),
       category_recommendation (u ''Cooking'') (u ''b'') (JFloat (Fin (3 / 4))),
       category_recommendation (u ''Sports & Fitness'') (u ''c'') (JFloat (Fin (1 / 2)))] =
     Inr (map (display_item (u ''Cooking'') (u ''b'') (Fin (3 / 4))) cooking_products @
          map (display_item (u ''Photography'') (u ''a'') (Fin (1 / 2))) photography_products @
          map (display_item (u ''Sports & Fitness'') (u ''c'') (Fin (1 / 2))) sports_products)"
    by (simp add: expand_def expand_rec_float catalog_lookup sort_by_confidence_def
        cooking_products_def photography_products_def sports_products_def)
  from expand_sort_is_stable [OF l n] l e show ?thesis
    by blast
qed

text \<open>
  Claim C10, as stated, fails for a confidence that is an integer: \<open>2 ^ 1024\<close> does not fit
  a float, the field rejects it and the whole call returns \<open>None\<close>; \<open>2 ^ 53 + 1\<close> is
  rounded to \<open>2 ^ 53\<close>.
\<close>

theorem integer_confidence_rejected_or_rounded:
  "expand_rec demo_env
      (category_recommendation (u ''Cooking'') (u ''r1'') (JInt (2 ^ 1024))) =
     Inl ValidationError
   \<and> get_recommendations_with_products demo_env (u ''huge'') (OpenAI demo_key) = None
   \<and> expand_rec demo_env
      (category_recommendation (u ''Cooking'') (u ''r1'') (JInt (2 ^ 53 + 1))) =
     Inr (map (display_item (u ''Cooking'') (u ''r1'') (Fin (2 ^ 53))) cooking_products)"
proof -
  have "expand_rec demo_env
      (category_recommendation (u ''Cooking'') (u ''r1'') (JInt (2 ^ 1024))) =
     Inl ValidationError"
    by (simp add: expand_rec_int catalog_lookup py_float_of_int_overflow del: power_numeral)
  moreover have "expand_rec demo_env
      (category_recommendation (u ''Cooking'') (u ''r1'') (JInt (2 ^ 53 + 1))) =
     Inr (map (display_item (u ''Cooking'') (u ''r1'') (Fin (2 ^ 53))) cooking_products)"
    using py_float_of_int_rounds
    by (simp add: expand_rec_int catalog_lookup del: power_numeral)
  ultimately show ?thesis
    using demo_huge by blast
qed

text \<open>
  Claim C10, amended. The confidence is never checked against \<open>[0, 1]\<close> and never
  clamped. A float confidence, whatever it is (inside \<open>[0, 1]\<close> or not, an infinity, NaN),
  is accepted and every display derived from the recommendation carries it unchanged.
  An integer confidence is converted to a float: to the float of the same value when
  its magnitude is at most \<open>2 ^ 53\<close>, to the nearest float beyond, and it is rejected only
  when the conversion overflows. When no confidence is NaN, the confidences are the sort
  key: those of the result are those of the expansion in descending order. Confidences
  \<open>-0.5\<close> and \<open>1.5\<close> are kept and ordered as they are.
\<close>

theorem confidence_not_range_checked:
  assumes "map_of PRODUCT_CATALOG cat = Some products"
  shows "validate_float E (JFloat x) = Inr x
    \<and> expand_rec E (category_recommendation cat r (JFloat x)) =
        Inr (map (display_item cat r x) products)
    \<and> map confidence (map (display_item cat r x) products) = replicate (length products) x
    \<and> (\<bar>n\<bar> \<le> 2 ^ 53 \<longrightarrow>
         expand_rec E (category_recommendation cat r (JInt n)) =
           Inr (map (display_item cat r (Fin (of_int n))) products))
    \<and> expand_rec E (category_recommendation cat r (JInt n)) =
        (case py_float_of_int n of
           None \<Rightarrow> Inl ValidationError
         | Some y \<Rightarrow> Inr (map (display_item cat r y) products))
    \<and> (\<forall>es. (\<forall>d\<in>set es. confidence d \<noteq> NaN) \<longrightarrow>
          map confidence (sort_by_confidence E es) =
            rev (stable_sort (\<lambda>k. k) (rev (map confidence es))))
    \<and> expand E [category_recommendation (u ''Cooking'') r1 (JFloat (Fin (- 1 / 2))),
                 category_recommendation (u ''Sports & Fitness'') r2 (JFloat (Fin (3 / 2)))] =
       Inr (map (display_item (u ''Sports & Fitness'') r2 (Fin (3 / 2))) sports_products @
            map (display_item (u ''Cooking'') r1 (Fin (- 1 / 2))) cooking_products)"
proof -
  have a: "expand_rec E (category_recommendation cat r (JFloat x)) =
      Inr (map (display_item cat r x) products)"
    using assms by (simp add: expand_rec_float)
  have b: "map confidence (map (display_item cat r x) products) = replicate (length products) x"
    by (simp add: comp_def map_replicate_const)
  have c: "expand_rec E (category_recommendation cat r (JInt n)) =
        (case py_float_of_int n of
           None \<Rightarrow> Inl ValidationError
         | Some y \<Rightarrow> Inr (map (display_item cat r y) products))"
    using assms by (simp add: expand_rec_int)
  have d: "\<bar>n\<bar> \<le> 2 ^ 53 \<longrightarrow>
         expand_rec E (category_recommendation cat r (JInt n)) =
           Inr (map (display_item cat r (Fin (of_int n))) products)"
    using c py_float_of_int_exact [of n] by (simp del: power_numeral)
  have e: "expand E [category_recommendation (u ''Cooking'') r1 (JFloat (Fin (- 1 / 2))),
                 category_recommendation (u ''Sports & Fitness'') r2 (JFloat (Fin (3 / 2)))] =
       Inr (map (display_item (u ''Sports & Fitness'') r2 (Fin (3 / 2))) sports_products @
            map (display_item (u ''Cooking'') r1 (Fin (- 1 / 2))) cooking_products)"
    by (simp add: expand_def expand_rec_float catalog_lookup sort_by_confidence_def
        cooking_products_def sports_products_def)
  have f: "\<forall>es. (\<forall>d\<in>set es. confidence d \<noteq> NaN) \<longrightarrow>
          map confidence (sort_by_confidence E es) =
            rev (stable_sort (\<lambda>k. k) (rev (map confidence es)))"
    using map_confidence_sort by blast
  from a b c d e f show ?thesis
    by simp
qed

theorem confidence_not_range_checked_witness:
  "map_of PRODUCT_CATALOG (u ''Cooking'') = Some cooking_products
   \<and> expand_rec demo_env (category_recommendation (u ''Cooking'') (u ''b'') (JFloat (Fin 250))) =
       Inr (map (display_item (u ''Cooking'') (u ''b'') (Fin 250)) cooking_products)
   \<and> expand_rec demo_env (category_recommendation (u ''Cooking'') (u ''b'') (JFloat NegInf)) =
       Inr (map (display_item (u ''Cooking'') (u ''b'') NegInf) cooking_products)
   \<and> expand_rec demo_env (category_recommendation (u ''Cooking'') (u ''b'') (JFloat NaN)) =
       Inr (map (display_item (u ''Cooking'') (u ''b'') NaN) cooking_products)
   \<and> expand_rec demo_env (category_recommendation (u ''Cooking'') (u ''b'') (JInt 7)) =
       Inr (map (display_item (u ''Cooking'') (u ''b'') (Fin 7)) cooking_products)"
proof -
  have a: "map_of PRODUCT_CATALOG (u ''Cooking'') = Some cooking_products"
    by (rule catalog_lookup)
  have b: "\<bar>7 :: int\<bar> \<le> 2 ^ 53"
    by simp
  from confidence_not_range_checked [OF a, of demo_env "Fin 250" "u ''b'' " 7]
    confidence_not_range_checked [OF a, of demo_env NegInf "u ''b'' " 7]
    confidence_not_range_checked [OF a, of demo_env NaN "u ''b'' " 7]
    a b
  show ?thesis
    by simp
qed

section \<open>Failure and the empty result\<close>

text \<open>
  Claim C6, as stated, fails for a payload that is not JSON but that \<open>json.loads\<close>
  accepts: the token \<open>NaN\<close> is no JSON value, \<open>json.loads\<close> reads it as a float, and the
  function returns a list.
\<close>

theorem nan_token_reply_is_accepted:
  "chat_completion demo_env (OpenAI demo_key) (user_prefix @ u ''nan'') = Returned nan_payload
   \<and> json_loads demo_env nan_payload =
       Some (JObj [(u ''recommendations'', JArr []), (u ''x'', JFloat NaN)])
   \<and> get_recommendations_with_products demo_env (u ''nan'') (OpenAI demo_key) = Some []"
  by (simp add: demo_nan) (simp add: demo_env_def demo_strings)

text \<open>
  Claim C6, amended. When \<open>json.loads\<close> rejects the reply's payload, or the decoded value
  has no key \<open>recommendations\<close> (an object that lacks it, or no object at all), the
  function returns \<open>None\<close>, the one failure outcome, and so no list, partial or not. A
  payload that \<open>json.loads\<close> accepts is processed whether it is standard JSON or not.
\<close>

theorem malformed_reply_is_failure:
  assumes "chat_completion E c (user_prefix @ interest) = Returned content"
    and "json_loads E content = None
       \<or> (\<exists>result. json_loads E content = Some result
             \<and> (\<forall>kvs. result = JObj kvs \<longrightarrow> map_of kvs (u ''recommendations'') = None))"
  shows "get_recommendations_with_products E interest c = None"
  using assms(2)
proof
  assume "json_loads E content = None"
  with assms(1) show ?thesis
    by (simp add: get_recommendations_with_products_def recommendations_try_def)
next
  assume "\<exists>result. json_loads E content = Some result
             \<and> (\<forall>kvs. result = JObj kvs \<longrightarrow> map_of kvs (u ''recommendations'') = None)"
  then obtain result where r: "json_loads E content = Some result"
      "\<forall>kvs. result = JObj kvs \<longrightarrow> map_of kvs (u ''recommendations'') = None"
    by blast
  from getitem_missing [OF r(2)] obtain e where "getitem result (u ''recommendations'') = Inl e"
    by blast
  with assms(1) r(1) show ?thesis
    by (simp add: get_recommendations_with_products_def recommendations_try_def)
qed

theorem malformed_reply_is_failure_witness:
  "chat_completion demo_env (OpenAI demo_key) (user_prefix @ u ''broken'') = Returned (u ''Sorry'')
   \<and> json_loads demo_env (u ''Sorry'') = None
   \<and> get_recommendations_with_products demo_env (u ''broken'') (OpenAI demo_key) = None
   \<and> chat_completion demo_env (OpenAI demo_key) (user_prefix @ u ''running'') = Returned (u ''{}'')
   \<and> json_loads demo_env (u ''{}'') = Some (JObj [])
   \<and> get_recommendations_with_products demo_env (u ''running'') (OpenAI demo_key) = None"
proof -
  have a: "chat_completion demo_env (OpenAI demo_key) (user_prefix @ u ''broken'') = Returned (u ''Sorry'')"
    by (simp add: demo_env_def)
  have b: "json_loads demo_env (u ''Sorry'') = None"
    by (simp add: demo_env_def demo_strings)
  have c: "chat_completion demo_env (OpenAI demo_key) (user_prefix @ u ''running'') = Returned (u ''{}'')"
    by (simp add: demo_env_def)
  have d: "json_loads demo_env (u ''{}'') = Some (JObj [])"
    by (simp add: demo_env_def demo_strings)
  have "get_recommendations_with_products demo_env (u ''broken'') (OpenAI demo_key) = None"
    using malformed_reply_is_failure [OF a] b by blast
  moreover have "get_recommendations_with_products demo_env (u ''running'') (OpenAI demo_key) = None"
    using malformed_reply_is_failure [OF c] d by simp
  ultimately show ?thesis
    using a b c d by simp
qed

text \<open>
  Claim C1, as stated, fails on the page: the empty list and the failure are told apart
  by the function's result, but \<open>main\<close> shows the same error for both. Here the service
  answers one interest with a category outside the catalog and another with an object
  that has no recommendations.
\<close>

theorem empty_result_shown_like_failure:
  "get_recommendations_with_products demo_env (u ''gardening'') (OpenAI demo_key) = Some []
   \<and> get_recommendations_with_products demo_env (u ''running'') (OpenAI demo_key) = None
   \<and> main_recommend demo_env demo_state (u ''gardening'') = ErrorTryAgain
   \<and> main_recommend demo_env demo_state (u ''running'') = ErrorTryAgain"
proof -
  have "u ''gardening'' \<noteq> []" and "u ''running'' \<noteq> []"
    by (simp_all add: u_def)
  then show ?thesis
    by (simp add: demo_gardening demo_running main_recommend_def demo_state_def)
qed

text \<open>
  Claim C1, amended. When the reply is valid and no recommended category is a key of
  the catalog, the function returns the empty list, which is not the failure outcome
  \<open>None\<close>. \<open>main\<close> tests the result for truth, so it shows the same error for the empty
  list as for a failure, and it renders product cards exactly for a list that is not
  empty.
\<close>

theorem empty_result_is_success_shown_as_error:
  assumes "chat_completion E c (user_prefix @ interest) = Returned content"
    and "json_loads E content = Some (JObj kvs)"
    and "map_of kvs (u ''recommendations'') = Some (JArr recs)"
    and "\<forall>rec\<in>set recs. \<exists>fs cat. rec = JObj fs \<and> map_of fs (u ''category'') = Some (JStr cat)
            \<and> map_of PRODUCT_CATALOG cat = None"
    and "client st = Some c"
    and "interest \<noteq> []"
  shows "get_recommendations_with_products E interest c = Some []
    \<and> get_recommendations_with_products E interest c \<noteq> None
    \<and> main_recommend E st interest = ErrorTryAgain
    \<and> (\<forall>E'. get_recommendations_with_products E' interest c = None \<longrightarrow>
            main_recommend E' st interest = ErrorTryAgain)
    \<and> (\<forall>E' ds. main_recommend E' st interest = Cards ds \<longleftrightarrow>
            get_recommendations_with_products E' interest c = Some ds \<and> ds \<noteq> [])"
proof -
  have "expand E recs = Inr []"
    using expand_loop_no_match [OF assms(4)] by (simp add: expand_def)
  then have a: "get_recommendations_with_products E interest c = Some []"
    using assms(1-3)
    by (simp add: get_recommendations_with_products_def recommendations_try_def)
  have b: "main_recommend E' st interest = Cards ds \<longleftrightarrow>
            get_recommendations_with_products E' interest c = Some ds \<and> ds \<noteq> []" for E' ds
    using assms(5,6) by (auto simp: main_recommend_def split: option.splits)
  have d: "get_recommendations_with_products E' interest c = None \<longrightarrow>
            main_recommend E' st interest = ErrorTryAgain" for E'
    using assms(5,6) by (simp add: main_recommend_def)
  have "main_recommend E st interest = ErrorTryAgain"
    using assms(5,6) a by (simp add: main_recommend_def)
  with a b d show ?thesis by simp
qed

theorem empty_result_is_success_shown_as_error_witness:
  "get_recommendations_with_products demo_env (u ''gardening'') (OpenAI demo_key) = Some []
   \<and> main_recommend demo_env demo_state (u ''gardening'') = ErrorTryAgain"
proof -
  have "chat_completion demo_env (OpenAI demo_key) (user_prefix @ u ''gardening'') = Returned gardening_payload"
    by (simp add: demo_env_def)
  moreover have "json_loads demo_env gardening_payload =
      Some (JObj [(u ''recommendations'',
                  JArr [category_recommendation (u ''Gardening'') (u ''plants'') (JFloat (Fin (8 / 10)))])])"
    by (simp add: demo_env_def)
  moreover have "map_of [(u ''recommendations'',
                  JArr [category_recommendation (u ''Gardening'') (u ''plants'') (JFloat (Fin (8 / 10)))])]
       (u ''recommendations'') =
      Some (JArr [category_recommendation (u ''Gardening'') (u ''plants'') (JFloat (Fin (8 / 10)))])"
    by simp
  moreover have "\<forall>rec\<in>set [category_recommendation (u ''Gardening'') (u ''plants'') (JFloat (Fin (8 / 10)))].
      \<exists>fs cat. rec = JObj fs \<and> map_of fs (u ''category'') = Some (JStr cat)
            \<and> map_of PRODUCT_CATALOG cat = None"
    by (simp add: category_recommendation_def catalog_lookup)
  moreover have "client demo_state = Some (OpenAI demo_key)"
    by (simp add: demo_state_def)
  moreover have "u ''gardening'' \<noteq> []"
    by (simp add: u_def)
  ultimately show ?thesis
    using empty_result_is_success_shown_as_error by blast
qed

section \<open>The save handler\<close>

lemma valid_key_is_tested:
  assumes "validate_api_key api_key"
  shows "TestRequest (OpenAI api_key) \<in> set (snd (main_save_api_key E api_key st))"
proof -
  from assms have "api_key \<noteq> []"
    by (auto simp: validate_api_key_def split: if_splits)
  with assms show ?thesis
    by (auto simp: main_save_api_key_def init_openai_client_def Let_def
        split: outcome.split)
qed

text \<open>
  Claim C7. When the submitted key fails the format validation, the save handler
  constructs no client and sends no request: it leaves the session state as it was and
  only shows a sidebar message.
\<close>

theorem invalid_key_makes_no_call:
  assumes "\<not> validate_api_key api_key"
  shows "main_save_api_key E api_key st =
           (st, [if api_key = [] then SidebarWarning else SidebarError])
    \<and> filter is_external (snd (main_save_api_key E api_key st)) = []"
  using assms by (simp add: main_save_api_key_def)

theorem invalid_key_makes_no_call_witness:
  "\<not> validate_api_key (u ''secret-key-0123456789'')
   \<and> main_save_api_key demo_env (u ''secret-key-0123456789'') demo_state =
       (demo_state, [SidebarError])
   \<and> filter is_external (snd (main_save_api_key demo_env (u ''secret-key-0123456789'') demo_state)) = []"
proof -
  have a: "\<not> validate_api_key (u ''secret-key-0123456789'')"
    by (simp add: validate_api_key_def startswith_def u_def)
  have "u ''secret-key-0123456789'' \<noteq> []"
    by (simp add: u_def)
  with invalid_key_makes_no_call [OF a, of demo_env demo_state] a show ?thesis
    by simp
qed

text \<open>
  Claim C8. When the connection test raises, \<open>init_openai_client\<close> returns \<open>None\<close> and the
  save handler does not assign the session's client entry: the entry is what it was
  before, so a session without a client stays without one.
\<close>

theorem failed_initialization_is_not_cached:
  assumes "test_connection E (OpenAI api_key) = Raised"
  shows "fst (init_openai_client E (st\<lparr>openai_api_key := Some api_key\<rparr>)) = None
    \<and> client (fst (main_save_api_key E api_key st)) = client st"
  using assms
  by (simp add: main_save_api_key_def init_openai_client_def Let_def)

theorem failed_initialization_is_not_cached_witness:
  "test_connection demo_env (OpenAI (u ''sk-00000000000000000000'')) = Raised
   \<and> validate_api_key (u ''sk-00000000000000000000'')
   \<and> main_save_api_key demo_env (u ''sk-00000000000000000000'')
        \<lparr>openai_api_key = None, client = None\<rparr> =
      (\<lparr>openai_api_key = Some (u ''sk-00000000000000000000''), client = None\<rparr>,
       [CreateClient (u ''sk-00000000000000000000''),
        TestRequest (OpenAI (u ''sk-00000000000000000000'')), SidebarError])
   \<and> client (fst (main_save_api_key demo_env (u ''sk-00000000000000000000'')
        \<lparr>openai_api_key = None, client = None\<rparr>)) = None"
proof -
  have a: "test_connection demo_env (OpenAI (u ''sk-00000000000000000000'')) = Raised"
    by (simp add: demo_env_def demo_key_def)
  have b: "validate_api_key (u ''sk-00000000000000000000'')"
    by (simp add: validate_api_key_def startswith_def u_def)
  have c: "u ''sk-00000000000000000000'' \<noteq> []"
    by (simp add: u_def)
  have "main_save_api_key demo_env (u ''sk-00000000000000000000'')
        \<lparr>openai_api_key = None, client = None\<rparr> =
      (\<lparr>openai_api_key = Some (u ''sk-00000000000000000000''), client = None\<rparr>,
       [CreateClient (u ''sk-00000000000000000000''),
        TestRequest (OpenAI (u ''sk-00000000000000000000'')), SidebarError])"
    using a b c by (simp add: main_save_api_key_def init_openai_client_def Let_def)
  with failed_initialization_is_not_cached [OF a, of "\<lparr>openai_api_key = None, client = None\<rparr>"] a b
  show ?thesis by simp
qed

end
